theory Spec2Isabelle
  imports Complex_Main
begin

section \<open>Number model and errors\<close>

text \<open>
  The calculator \<^verbatim>\<open>boligeie.py\<close> computes with Python numbers. Its widget inputs
  are Python ints (prices, equity, incomes, years) or floats (rates, percentages), and
  every division is Python's true division. All of them are embedded as \<^typ>\<open>real\<close>,
  so the arithmetic of this theory is exact: the rounding of IEEE doubles is not
  modelled, and every equation proved below is an equation of exact arithmetic.
  Quantities the source uses as loop bounds (\<^verbatim>\<open>range(antall_aar * 12)\<close>) or
  as integer exponents are \<^typ>\<open>int\<close>.

  Python raises where HOL would return a default: a division by zero is
  \<^verbatim>\<open>ZeroDivisionError\<close>, arithmetic on \<^verbatim>\<open>None\<close> is \<^verbatim>\<open>TypeError\<close>, a missing
  dictionary key is \<^verbatim>\<open>KeyError\<close>, a read of a variable that no executed
  statement has assigned is \<^verbatim>\<open>NameError\<close>. Each is a value of \<open>error\<close>, and a
  function that can raise returns \<open>error + 'a\<close>.
\<close>

datatype error = ZeroDivisionError | TypeError | KeyError | NameError

text \<open>Python's \<^verbatim>\<open>a / b\<close>.\<close>

definition py_div :: "real \<Rightarrow> real \<Rightarrow> error + real" where
  "py_div a b = (if b = 0 then Inl ZeroDivisionError else Inr (a / b))"

text \<open>
  Python's \<^verbatim>\<open>x ** n\<close> for a float \<open>x\<close> and an int \<open>n\<close>: zero to a negative
  power raises, everything else is the integer power (\<^verbatim>\<open>x ** 0\<close> is 1, also at 0).
\<close>

definition py_pow :: "real \<Rightarrow> int \<Rightarrow> error + real" where
  "py_pow x n = (if x = 0 \<and> n < 0 then Inl ZeroDivisionError else Inr (x powi n))"

text \<open>Sequencing of computations that may raise.\<close>

definition bind_err :: "error + 'a \<Rightarrow> ('a \<Rightarrow> error + 'b) \<Rightarrow> error + 'b" where
  "bind_err m f = (case m of Inl e \<Rightarrow> Inl e | Inr v \<Rightarrow> f v)"

fun map_err :: "('a \<Rightarrow> error + 'b) \<Rightarrow> 'a list \<Rightarrow> error + 'b list" where
  "map_err f [] = Inr []"
| "map_err f (x # xs) =
     (case f x of
        Inl e \<Rightarrow> Inl e
      | Inr y \<Rightarrow> (case map_err f xs of Inl e \<Rightarrow> Inl e | Inr ys \<Rightarrow> Inr (y # ys)))"

section \<open>Cost allocation: \<^verbatim>\<open>beregn_fordeling\<close>\<close>

text \<open>
  \<^verbatim>\<open>beregn_fordeling(total_kostnad, inntekt_a, inntekt_b, fordeling_type, custom_split=None)\<close>.
  The policy is a string; the final \<^verbatim>\<open>return\<close> is reached by every string that is
  none of the three names. \<^verbatim>\<open>custom_split\<close> defaults to \<^verbatim>\<open>None\<close>, and
  \<^verbatim>\<open>None / 100\<close> raises.
\<close>

definition beregn_fordeling ::
  "real \<Rightarrow> real \<Rightarrow> real \<Rightarrow> string \<Rightarrow> real option \<Rightarrow> error + real \<times> real" where
  "beregn_fordeling total_kostnad inntekt_a inntekt_b fordeling_type custom_split =
     (if fordeling_type = ''50/50'' then Inr (total_kostnad / 2, total_kostnad / 2)
      else if fordeling_type = ''Proporsjonal etter inntekt'' then
        (if inntekt_a + inntekt_b = 0 then Inr (0, 0)
         else (let andel_a = inntekt_a / (inntekt_a + inntekt_b)
               in Inr (total_kostnad * andel_a, total_kostnad * (1 - andel_a))))
      else if fordeling_type = ''Egendefinert'' then
        (case custom_split of
           None \<Rightarrow> Inl TypeError
         | Some c \<Rightarrow> (let andel_a = c / 100
                      in Inr (total_kostnad * andel_a, total_kostnad * (1 - andel_a))))
      else Inr (total_kostnad / 2, total_kostnad / 2))"

section \<open>Rate forecast: \<^verbatim>\<open>generer_renteprognose\<close>\<close>

text \<open>The result is a data frame of two columns.\<close>

record renteprognose =
  prognose_Aar :: "int list"
  prognose_Rente :: "real list"

text \<open>The dictionary of projected policy rates, and a lookup that raises on a missing key.\<close>

definition styringsrente_prognose :: "(int \<times> real) list" where
  "styringsrente_prognose =
     [(2025, 4.25), (2026, 4.0), (2027, 3.5), (2028, 3.1), (2029, 3.0),
      (2030, 3.0), (2031, 3.0), (2032, 3.0), (2033, 3.0), (2034, 3.0)]"

definition oppslag :: "(int \<times> real) list \<Rightarrow> int \<Rightarrow> error + real" where
  "oppslag d k = (case map_of d k of None \<Rightarrow> Inl KeyError | Some v \<Rightarrow> Inr v)"

text \<open>\<^verbatim>\<open>aar = list(range(2025, 2035))\<close>\<close>

definition aar :: "int list" where
  "aar = [2025, 2026, 2027, 2028, 2029, 2030, 2031, 2032, 2033, 2034]"

text \<open>\<^verbatim>\<open>range(10)\<close>\<close>

definition range10 :: "nat list" where
  "range10 = [0, 1, 2, 3, 4, 5, 6, 7, 8, 9]"

text \<open>
  The two legacy loops carry \<^verbatim>\<open>current\<close> and the list \<^verbatim>\<open>renter\<close> through the
  ten iterations.
\<close>

definition moderat_steg :: "real \<times> real list \<Rightarrow> nat \<Rightarrow> real \<times> real list" where
  "moderat_steg s i =
     (let current = fst s;
          current = (if i < 3 then current + 0.2
                     else if i < 5 then current + 0.1
                     else current + 0.05)
      in (current, snd s @ [min 6.0 current]))"

definition hoy_steg :: "real \<times> real list \<Rightarrow> nat \<Rightarrow> real \<times> real list" where
  "hoy_steg s i =
     (let current = fst s;
          current = (if i < 2 then current + 0.5
                     else if i < 5 then current + 0.3
                     else current + 0.1)
      in (current, snd s @ [min 8.0 current]))"

definition generer_renteprognose :: "real \<Rightarrow> string \<Rightarrow> error + renteprognose" where
  "generer_renteprognose basis_rente prognose_type =
     bind_err
       (if prognose_type = ''norges_bank'' then
          (let passlag = 1.5
           in map_err (\<lambda>year. bind_err (oppslag styringsrente_prognose year)
                                 (\<lambda>v. Inr (v + passlag))) aar)
        else if prognose_type = ''optimistisk'' then
          (let passlag = 1.0
           in map_err (\<lambda>year. bind_err (oppslag styringsrente_prognose year)
                                 (\<lambda>v. Inr (v + passlag))) aar)
        else if prognose_type = ''pessimistisk'' then
          (let passlag = 2.0
           in map_err (\<lambda>year. bind_err (oppslag styringsrente_prognose year)
                                 (\<lambda>v. Inr (min 8.0 (v + 0.5 + passlag)))) aar)
        else if prognose_type = ''lav'' then
          Inr (map (\<lambda>i. max 1.5 (basis_rente - 0.1 * real i)) range10)
        else if prognose_type = ''moderat'' then
          Inr (snd (foldl moderat_steg (basis_rente, []) range10))
        else
          Inr (snd (foldl hoy_steg (basis_rente, []) range10)))
       (\<lambda>renter. Inr \<lparr>prognose_Aar = aar, prognose_Rente = renter\<rparr>)"

section \<open>Annuity engine: \<^verbatim>\<open>beregn_terminbelop\<close> and \<^verbatim>\<open>beregn_amortiseringsplan\<close>\<close>

text \<open>
  \<^verbatim>\<open>beregn_terminbelop(laan, rente, nedbetalingstid_aar)\<close>. The term is a Python
  int (the widget's \<^verbatim>\<open>min_value\<close> is an int, and the schedule passes
  \<^verbatim>\<open>antall_aar * 12\<close> to \<^verbatim>\<open>range\<close>). The function has no check of its
  arguments: the only failures are the ones Python's arithmetic raises. The source
  evaluates the power twice, once in the numerator and once in the denominator.
\<close>

definition beregn_terminbelop :: "real \<Rightarrow> real \<Rightarrow> int \<Rightarrow> error + real" where
  "beregn_terminbelop laan rente nedbetalingstid_aar =
     (if rente = 0 then py_div laan (of_int (nedbetalingstid_aar * 12))
      else
        (let maanedlig_rente = rente / 100 / 12;
             antall_terminer = nedbetalingstid_aar * 12
         in bind_err (py_pow (1 + maanedlig_rente) antall_terminer) (\<lambda>p1.
            bind_err (py_pow (1 + maanedlig_rente) antall_terminer) (\<lambda>p2.
              py_div (laan * (maanedlig_rente * p1)) (p2 - 1)))))"

definition SKATTESATS_RENTEFRADRAG :: real where
  "SKATTESATS_RENTEFRADRAG = 0.22"

text \<open>One row of the schedule (a dictionary with these eight keys in the source).\<close>

record termin =
  Aar :: nat
  Maaned :: nat
  Terminbelop :: real
  Renter :: real
  Avdrag :: real
  Gjenstaaende :: real
  Skattefradrag :: real
  Netto_kostnad :: real

text \<open>
  The loop \<^verbatim>\<open>for mnd in range(antall_aar * 12)\<close>: the first argument counts the
  iterations that are left, \<open>mnd\<close> is the loop variable and \<open>gjenstaaende\<close> the
  running balance. The balance that is carried on is the unclamped one; only the
  recorded column is \<^verbatim>\<open>max(0, gjenstaaende)\<close>.
\<close>

fun plan_loekke :: "nat \<Rightarrow> real \<Rightarrow> real \<Rightarrow> nat \<Rightarrow> real \<Rightarrow> termin list" where
  "plan_loekke 0 maanedlig_rente terminbelop mnd gjenstaaende = []"
| "plan_loekke (Suc k) maanedlig_rente terminbelop mnd gjenstaaende =
     (if gjenstaaende \<le> 0 then []
      else
        (let renter = gjenstaaende * maanedlig_rente;
             avdrag = terminbelop - renter;
             gjenstaaende = gjenstaaende - avdrag
         in \<lparr>Aar = (mnd div 12) + 1,
              Maaned = (mnd mod 12) + 1,
              Terminbelop = terminbelop,
              Renter = renter,
              Avdrag = avdrag,
              Gjenstaaende = max 0 gjenstaaende,
              Skattefradrag = renter * SKATTESATS_RENTEFRADRAG,
              Netto_kostnad = terminbelop - (renter * SKATTESATS_RENTEFRADRAG)\<rparr>
            # plan_loekke k maanedlig_rente terminbelop (Suc mnd) gjenstaaende))"

text \<open>
  \<^verbatim>\<open>beregn_amortiseringsplan(laan, rente, nedbetalingstid_aar, antall_aar=None)\<close>.
  A negative \<^verbatim>\<open>antall_aar * 12\<close> gives an empty \<^verbatim>\<open>range\<close>.
\<close>

definition beregn_amortiseringsplan ::
  "real \<Rightarrow> real \<Rightarrow> int \<Rightarrow> int option \<Rightarrow> error + termin list" where
  "beregn_amortiseringsplan laan rente nedbetalingstid_aar antall_aar_opt =
     (let antall_aar = (case antall_aar_opt of
                          None \<Rightarrow> min 10 nedbetalingstid_aar
                        | Some a \<Rightarrow> a);
          maanedlig_rente = rente / 100 / 12
      in bind_err (beregn_terminbelop laan rente nedbetalingstid_aar) (\<lambda>terminbelop.
           Inr (plan_loekke (nat (antall_aar * 12)) maanedlig_rente terminbelop 0 laan)))"

section \<open>The script: widget values and what it derives from them\<close>

text \<open>
  Ownership over time and the sale settlement are not functions of the source: they are
  code of the Streamlit script, which reads the values of its widgets. The record holds
  the widget values these two parts depend on, under the script's names with the prefix
  \<open>inn_\<close>. \<open>inn_egenkapital_a\<close> is \<open>None\<close> for the radio choice
  \<^verbatim>\<open>"Lik fordeling (50/50)"\<close> and the value of the number input for
  \<^verbatim>\<open>"Ulik fordeling"\<close>; \<open>inn_custom_split\<close> is the slider, which exists only
  under the policy \<^verbatim>\<open>"Egendefinert"\<close>.
\<close>

record inndata =
  inn_boligpris :: real
  inn_egenkapital :: real
  inn_egenkapital_a :: "real option"
  inn_rente :: real
  inn_nedbetalingstid :: int
  inn_felleskostnader :: real
  inn_brutto_aar_a :: real
  inn_brutto_aar_b :: real
  inn_fordeling_type :: string
  inn_custom_split :: real
  inn_salgsaar :: int
  inn_verdiendring_prosent :: real
  inn_salgskostnader_prosent :: real

text \<open>
  Lines 295 to 326. The two equity shares are assigned only in the branch for an equity
  of at least 15 percent of the price; below it every later read of
  \<^verbatim>\<open>egenkapital_a\<close> raises.
\<close>

definition fordel_egenkapital :: "inndata \<Rightarrow> error + real \<times> real" where
  "fordel_egenkapital x =
     bind_err (py_div (inn_egenkapital x) (inn_boligpris x)) (\<lambda>q.
       (let egenkapital_prosent = q * 100
        in if egenkapital_prosent < 15 then Inl NameError
           else (case inn_egenkapital_a x of
                   Some egenkapital_a \<Rightarrow>
                     Inr (egenkapital_a, inn_egenkapital x - egenkapital_a)
                 | None \<Rightarrow> Inr (inn_egenkapital x / 2, inn_egenkapital x / 2))))"

text \<open>Line 366.\<close>

definition laanebelop :: "inndata \<Rightarrow> real" where
  "laanebelop x = inn_boligpris x - inn_egenkapital x"

text \<open>Lines 436 to 445.\<close>

definition valgt_custom_split :: "inndata \<Rightarrow> real option" where
  "valgt_custom_split x =
     (if inn_fordeling_type x = ''Egendefinert'' then Some (inn_custom_split x) else None)"

text \<open>Lines 449 to 466: the monthly cost of each party.\<close>

definition kostnad :: "inndata \<Rightarrow> error + real \<times> real" where
  "kostnad x =
     bind_err (beregn_terminbelop (laanebelop x) (inn_rente x) (inn_nedbetalingstid x))
       (\<lambda>terminbelop.
          (let total_mnd_kostnad = terminbelop + inn_felleskostnader x
           in beregn_fordeling total_mnd_kostnad (inn_brutto_aar_a x) (inn_brutto_aar_b x)
                (inn_fordeling_type x) (valgt_custom_split x)))"

text \<open>
  The share of the repayments that is credited to party A, lines 1150 to 1155 and again
  lines 2209 to 2219. Python's \<^verbatim>\<open>custom_split / 100 if custom_split else 0.5\<close>
  takes the second branch for \<^verbatim>\<open>None\<close> and for 0.
\<close>

definition avdrag_andel_a :: "string \<Rightarrow> real \<Rightarrow> real \<Rightarrow> real option \<Rightarrow> real" where
  "avdrag_andel_a fordeling_type kostnad_a kostnad_b custom =
     (if fordeling_type = ''50/50'' then 0.5
      else if fordeling_type = ''Proporsjonal etter inntekt'' then
        (if kostnad_a + kostnad_b > 0 then kostnad_a / (kostnad_a + kostnad_b) else 0.5)
      else (case custom of
              None \<Rightarrow> 0.5
            | Some c \<Rightarrow> if c \<noteq> 0 then c / 100 else 0.5))"

section \<open>Ownership over time\<close>

text \<open>
  Lines 1125 to 1194. \<^verbatim>\<open>years\<close> has \<open>nedbetalingstid + 1\<close> entries; the loop
  appends one pair of percentages for each index \<open>i\<close>.
\<close>

definition eierandel_aar ::
  "real \<Rightarrow> real \<Rightarrow> real \<Rightarrow> real \<Rightarrow> real \<Rightarrow> real \<Rightarrow> nat \<Rightarrow> real \<times> real" where
  "eierandel_aar initial_eierandel_a initial_eierandel_b laaneandel_a laaneandel_b
       aarlig_avdrag laan i =
     (if i = 0 then (initial_eierandel_a, initial_eierandel_b)
      else
        (let years_passed = real i;
             total_nedbetalt_saa_langt = min (aarlig_avdrag * years_passed) laan;
             prosent_nedbetalt =
               (if laan > 0 then total_nedbetalt_saa_langt / laan else 1);
             ekstra_eierandel_a = laaneandel_a * prosent_nedbetalt;
             ekstra_eierandel_b = laaneandel_b * prosent_nedbetalt
         in (initial_eierandel_a + ekstra_eierandel_a,
             initial_eierandel_b + ekstra_eierandel_b)))"

definition eierandel_over_tid :: "inndata \<Rightarrow> error + (real \<times> real) list" where
  "eierandel_over_tid x =
     bind_err (kostnad x) (\<lambda>(kostnad_a, kostnad_b).
     bind_err (fordel_egenkapital x) (\<lambda>(egenkapital_a, egenkapital_b).
     bind_err (py_div egenkapital_a (inn_boligpris x)) (\<lambda>qa.
     bind_err (py_div egenkapital_b (inn_boligpris x)) (\<lambda>qb.
     bind_err (py_div (laanebelop x) (inn_boligpris x)) (\<lambda>ql.
     bind_err (py_div (laanebelop x) (of_int (inn_nedbetalingstid x * 12)))
       (\<lambda>gjennomsnittlig_maanedlig_avdrag.
          (let initial_eierandel_a = qa * 100;
               initial_eierandel_b = qb * 100;
               total_laaneandel = ql * 100;
               aarlig_avdrag = gjennomsnittlig_maanedlig_avdrag * 12;
               andel_a = avdrag_andel_a (inn_fordeling_type x) kostnad_a kostnad_b
                           (valgt_custom_split x);
               andel_b = 1 - andel_a;
               laaneandel_a = total_laaneandel * andel_a;
               laaneandel_b = total_laaneandel * andel_b
           in Inr (map (eierandel_aar initial_eierandel_a initial_eierandel_b
                          laaneandel_a laaneandel_b aarlig_avdrag (laanebelop x))
                     [0 ..< nat (inn_nedbetalingstid x + 1)]))))))))"

section \<open>Sale settlement\<close>

text \<open>
  The radio \<^verbatim>\<open>fordelingsmodell\<close> offers four labels, which the script tells apart
  by the substrings \<^verbatim>\<open>"Modell 1"\<close>, \<^verbatim>\<open>"Modell 2"\<close>, \<^verbatim>\<open>"Modell 3"\<close>; the
  fourth label (Hybrid) is the \<^verbatim>\<open>else\<close> branch.
\<close>

datatype fordelingsmodell = Modell1 | Modell2 | Modell3 | Modell4

text \<open>The variables that the settlement (lines 2177 to 2342) reads.\<close>

record salg =
  boligpris :: real
  verdiendring_prosent :: real
  salgskostnader_prosent :: real
  gjenstaaende_laan :: real
  egenkapital :: real
  egenkapital_a :: real
  egenkapital_b :: real
  nedbetalt_a :: real
  nedbetalt_b :: real

text \<open>Lines 2177 to 2182.\<close>

definition salgspris :: "salg \<Rightarrow> real" where
  "salgspris s = boligpris s * (1 + verdiendring_prosent s / 100)"

definition verdiendring_kr :: "salg \<Rightarrow> real" where
  "verdiendring_kr s = salgspris s - boligpris s"

definition salgskostnader :: "salg \<Rightarrow> real" where
  "salgskostnader s = salgspris s * (salgskostnader_prosent s / 100)"

definition netto_salgssum :: "salg \<Rightarrow> real" where
  "netto_salgssum s = salgspris s - salgskostnader s - gjenstaaende_laan s"

text \<open>Lines 2222 to 2224.\<close>

definition total_investert_a :: "salg \<Rightarrow> real" where
  "total_investert_a s = egenkapital_a s + nedbetalt_a s"

definition total_investert_b :: "salg \<Rightarrow> real" where
  "total_investert_b s = egenkapital_b s + nedbetalt_b s"

definition total_investert :: "salg \<Rightarrow> real" where
  "total_investert s = total_investert_a s + total_investert_b s"

text \<open>
  Three expressions that the four branches repeat: the split of an amount in proportion
  to the total investments, the split that pays the investments back and divides the
  gain by two given shares, and the equity shares.
\<close>

definition etter_investering :: "salg \<Rightarrow> real \<Rightarrow> real \<times> real" where
  "etter_investering s netto =
     ((if total_investert s > 0 then netto * (total_investert_a s / total_investert s)
       else netto * 0.5),
      (if total_investert s > 0 then netto * (total_investert_b s / total_investert s)
       else netto * 0.5))"

definition ek_andel_a :: "salg \<Rightarrow> real" where
  "ek_andel_a s = (if egenkapital s > 0 then egenkapital_a s / egenkapital s else 0.5)"

definition ek_andel_b :: "salg \<Rightarrow> real" where
  "ek_andel_b s = (if egenkapital s > 0 then egenkapital_b s / egenkapital s else 0.5)"

text \<open>Lines 2264 to 2342: the pair \<^verbatim>\<open>(utbetaling_a, utbetaling_b)\<close>.\<close>

definition utbetaling :: "fordelingsmodell \<Rightarrow> salg \<Rightarrow> real \<times> real" where
  "utbetaling modell s =
     (case modell of
        Modell1 \<Rightarrow>
          (let andel_a = (if total_investert s > 0
                          then total_investert_a s / total_investert s else 0.5);
               andel_b = (if total_investert s > 0
                          then total_investert_b s / total_investert s else 0.5)
           in (netto_salgssum s * andel_a, netto_salgssum s * andel_b))
      | Modell2 \<Rightarrow>
          (if netto_salgssum s > total_investert s then
             (let gevinst = netto_salgssum s - total_investert s
              in (total_investert_a s + (gevinst * ek_andel_a s),
                  total_investert_b s + (gevinst * ek_andel_b s)))
           else etter_investering s (netto_salgssum s))
      | Modell3 \<Rightarrow>
          (if netto_salgssum s > total_investert s then
             (let gevinst = netto_salgssum s - total_investert s
              in (total_investert_a s + (gevinst * 0.5),
                  total_investert_b s + (gevinst * 0.5)))
           else etter_investering s (netto_salgssum s))
      | Modell4 \<Rightarrow>
          (if verdiendring_kr s > 0 then
             (if netto_salgssum s > total_investert s then
                (let gevinst = netto_salgssum s - total_investert s
                 in (total_investert_a s + (gevinst * ek_andel_a s),
                     total_investert_b s + (gevinst * ek_andel_b s)))
              else etter_investering s (netto_salgssum s))
           else
             (let andel_a = (if total_investert s > 0
                             then total_investert_a s / total_investert s else 0.5);
                  andel_b = (if total_investert s > 0
                             then total_investert_b s / total_investert s else 0.5)
              in (netto_salgssum s * andel_a, netto_salgssum s * andel_b))))"



text \<open>
  How the script fills these variables. Lines 2046 to 2059 and 2166 to 2170: the
  principal repaid up to the sale year is the sum of the schedule's column
  \<^verbatim>\<open>Avdrag\<close>, or the straight-line estimate when the schedule is empty.
\<close>

definition nedbetaling :: "inndata \<Rightarrow> error + real" where
  "nedbetaling x =
     bind_err (beregn_amortiseringsplan (laanebelop x) (inn_rente x) (inn_nedbetalingstid x)
                 (Some (inn_salgsaar x)))
       (\<lambda>amortiseringsplan.
          if amortiseringsplan \<noteq> [] then Inr (sum_list (map Avdrag amortiseringsplan))
          else bind_err (py_div (laanebelop x) (of_int (inn_nedbetalingstid x)))
                 (\<lambda>q. Inr (q * of_int (inn_salgsaar x))))"

text \<open>
  Lines 1321 to 1337, in the tab before the sale tab: the script builds the schedule of
  the first ten years and groups it by year. An empty schedule is a data frame without
  columns, on which \<^verbatim>\<open>groupby\<close> by the year column raises \<^verbatim>\<open>KeyError\<close>; the schedule
  is empty exactly when the loan is not positive.
\<close>

definition detaljplan :: "inndata \<Rightarrow> error + termin list" where
  "detaljplan x =
     bind_err (beregn_amortiseringsplan (laanebelop x) (inn_rente x) (inn_nedbetalingstid x)
                 (Some 10))
       (\<lambda>amortiseringsplan.
          if amortiseringsplan = [] then Inl KeyError else Inr amortiseringsplan)"

text \<open>
  The state in which the script enters the settlement, in the order the script runs:
  the monthly costs (line 460), the equity shares (first read at line 1134; the
  divisions of the ownership loop have the denominators \<^verbatim>\<open>boligpris\<close> and
  \<^verbatim>\<open>nedbetalingstid * 12\<close>, which are not zero once the two steps before have
  passed), the ten-year schedule (line 1331) and the repaid principal (line 2046).
\<close>

definition salgstilstand :: "inndata \<Rightarrow> error + salg" where
  "salgstilstand x =
     bind_err (kostnad x) (\<lambda>(kostnad_a, kostnad_b).
     bind_err (fordel_egenkapital x) (\<lambda>(egenkapital_a, egenkapital_b).
     bind_err (detaljplan x) (\<lambda>_.
     bind_err (nedbetaling x) (\<lambda>total_avdrag.
       (let andel_a = avdrag_andel_a (inn_fordeling_type x) kostnad_a kostnad_b
                        (valgt_custom_split x)
        in Inr \<lparr>boligpris = inn_boligpris x,
                 verdiendring_prosent = inn_verdiendring_prosent x,
                 salgskostnader_prosent = inn_salgskostnader_prosent x,
                 gjenstaaende_laan = laanebelop x - total_avdrag,
                 egenkapital = inn_egenkapital x,
                 egenkapital_a = egenkapital_a,
                 egenkapital_b = egenkapital_b,
                 nedbetalt_a = total_avdrag * andel_a,
                 nedbetalt_b = total_avdrag * (1 - andel_a)\<rparr>)))))"


text \<open>
  The ranges of the widgets (their \<^verbatim>\<open>min_value\<close> and \<^verbatim>\<open>max_value\<close>
  arguments, and the options of the radio).
\<close>

definition gyldig_inndata :: "inndata \<Rightarrow> bool" where
  "gyldig_inndata x =
     (500000 \<le> inn_boligpris x \<and> inn_boligpris x \<le> 15000000
      \<and> 0 \<le> inn_egenkapital x \<and> inn_egenkapital x \<le> inn_boligpris x
      \<and> (case inn_egenkapital_a x of
            None \<Rightarrow> True
          | Some ea \<Rightarrow> 0 \<le> ea \<and> ea \<le> inn_egenkapital x)
      \<and> 0 \<le> inn_rente x \<and> inn_rente x \<le> 10
      \<and> 5 \<le> inn_nedbetalingstid x \<and> inn_nedbetalingstid x \<le> 30
      \<and> 0 \<le> inn_felleskostnader x \<and> inn_felleskostnader x \<le> 10000
      \<and> 0 \<le> inn_brutto_aar_a x \<and> inn_brutto_aar_a x \<le> 3000000
      \<and> 0 \<le> inn_brutto_aar_b x \<and> inn_brutto_aar_b x \<le> 3000000
      \<and> inn_fordeling_type x \<in> {''50/50'', ''Proporsjonal etter inntekt'', ''Egendefinert''}
      \<and> 0 \<le> inn_custom_split x \<and> inn_custom_split x \<le> 100
      \<and> 1 \<le> inn_salgsaar x \<and> inn_salgsaar x \<le> min (inn_nedbetalingstid x) 30
      \<and> - 30 \<le> inn_verdiendring_prosent x \<and> inn_verdiendring_prosent x \<le> 100
      \<and> 0 \<le> inn_salgskostnader_prosent x \<and> inn_salgskostnader_prosent x \<le> 10)"

text \<open>The values the widgets start with (their \<^verbatim>\<open>value=\<close> arguments).\<close>

definition standard_inndata :: inndata where
  "standard_inndata =
     \<lparr>inn_boligpris = 4500000,
      inn_egenkapital = 1300000,
      inn_egenkapital_a = None,
      inn_rente = 4.99,
      inn_nedbetalingstid = 25,
      inn_felleskostnader = 3500,
      inn_brutto_aar_a = 37900,
      inn_brutto_aar_b = 58500,
      inn_fordeling_type = ''50/50'',
      inn_custom_split = 50,
      inn_salgsaar = 5,
      inn_verdiendring_prosent = 33.3,
      inn_salgskostnader_prosent = 2.5\<rparr>"

section \<open>Properties of the cost allocation\<close>

lemma shares_exI:
  "r = Inr (x, y) \<Longrightarrow> Q x y \<Longrightarrow> \<exists>a b. r = Inr (a, b) \<and> Q a b"
  by blast

text \<open>
  Claim C9. A policy string that is none of \<^verbatim>\<open>"50/50"\<close>,
  \<^verbatim>\<open>"Proporsjonal etter inntekt"\<close> and \<^verbatim>\<open>"Egendefinert"\<close> raises nothing:
  the call falls through to the last \<^verbatim>\<open>return\<close> and yields the equal split
  \<open>(amount / 2, amount / 2)\<close>, whatever the incomes and the custom percentage are
  (also \<^verbatim>\<open>None\<close>).
\<close>

theorem beregn_fordeling_unknown_policy:
  assumes "fordeling_type \<noteq> ''50/50''"
    and "fordeling_type \<noteq> ''Proporsjonal etter inntekt''"
    and "fordeling_type \<noteq> ''Egendefinert''"
  shows "beregn_fordeling total_kostnad inntekt_a inntekt_b fordeling_type custom_split
         = Inr (total_kostnad / 2, total_kostnad / 2)"
  using assms by (simp add: beregn_fordeling_def)

theorem beregn_fordeling_unknown_policy_witness:
  "''Etter areal'' \<noteq> ''50/50'' \<and> ''Etter areal'' \<noteq> ''Proporsjonal etter inntekt''
   \<and> ''Etter areal'' \<noteq> ''Egendefinert''
   \<and> beregn_fordeling 21500 37900 58500 ''Etter areal'' None = Inr (10750, 10750)"
  using beregn_fordeling_unknown_policy [of "''Etter areal''" 21500 37900 58500 None]
  by simp

text \<open>
  Claim C3, as stated, fails: under the income-proportional policy with incomes that sum
  to zero the guard \<^verbatim>\<open>if inntekt_a + inntekt_b == 0: return 0, 0\<close> returns two zero
  shares, which do not sum to a nonzero amount.
\<close>

theorem beregn_fordeling_sum_counterexample:
  "beregn_fordeling 21500 0 0 ''Proporsjonal etter inntekt'' None = Inr (0, 0)
   \<and> (0::real) + 0 \<noteq> 21500"
  by (simp add: beregn_fordeling_def)

text \<open>
  Claim C3, amended. For every amount, every policy string and every numeric custom
  percentage the call returns two shares. Under the income-proportional policy with
  incomes summing to zero both shares are 0; in every other case the shares sum to the
  amount (in exact arithmetic; the code computes the second share as
  \<^verbatim>\<open>total_kostnad * (1 - andel_a)\<close>).
\<close>

theorem beregn_fordeling_sum:
  "\<exists>share_a share_b.
     beregn_fordeling total_kostnad inntekt_a inntekt_b fordeling_type (Some custom_split)
       = Inr (share_a, share_b)
     \<and> (if fordeling_type = ''Proporsjonal etter inntekt'' \<and> inntekt_a + inntekt_b = 0
        then share_a = 0 \<and> share_b = 0
        else share_a + share_b = total_kostnad)"
proof -
  let ?r = "beregn_fordeling total_kostnad inntekt_a inntekt_b fordeling_type
              (Some custom_split)"
  consider (zero) "fordeling_type = ''Proporsjonal etter inntekt''" "inntekt_a + inntekt_b = 0"
    | (propors) "fordeling_type = ''Proporsjonal etter inntekt''" "inntekt_a + inntekt_b \<noteq> 0"
    | (custom) "fordeling_type = ''Egendefinert''"
    | (equal) "fordeling_type \<noteq> ''Proporsjonal etter inntekt''"
        "fordeling_type \<noteq> ''Egendefinert''"
    by blast
  then show ?thesis
  proof cases
    case zero
    then have "?r = Inr (0, 0)"
      by (simp add: beregn_fordeling_def)
    from this show ?thesis by (rule shares_exI) (simp add: zero)
  next
    case propors
    then have "?r = Inr (total_kostnad * (inntekt_a / (inntekt_a + inntekt_b)),
                         total_kostnad * (1 - inntekt_a / (inntekt_a + inntekt_b)))"
      by (simp add: beregn_fordeling_def)
    from this show ?thesis by (rule shares_exI) (simp add: propors right_diff_distrib)
  next
    case custom
    then have "?r = Inr (total_kostnad * (custom_split / 100),
                         total_kostnad * (1 - custom_split / 100))"
      by (simp add: beregn_fordeling_def)
    from this show ?thesis by (rule shares_exI) (simp add: custom right_diff_distrib)
  next
    case equal
    then have "?r = Inr (total_kostnad / 2, total_kostnad / 2)"
      by (simp add: beregn_fordeling_def)
    from this show ?thesis by (rule shares_exI) (simp add: equal)
  qed
qed

theorem beregn_fordeling_sum_witness:
  "\<exists>share_a share_b.
     beregn_fordeling 21500 37900 58500 ''Proporsjonal etter inntekt'' (Some 50)
       = Inr (share_a, share_b)
     \<and> share_a + share_b = 21500"
  using beregn_fordeling_sum [of 21500 37900 58500 "''Proporsjonal etter inntekt''" 50]
  by simp

section \<open>Properties of the rate forecast\<close>

text \<open>
  Claim C10. For the three table-based policies \<^verbatim>\<open>norges_bank\<close>,
  \<^verbatim>\<open>optimistisk\<close> and \<^verbatim>\<open>pessimistisk\<close> the forecast does not depend on
  \<^verbatim>\<open>basis_rente\<close>: any two base rates give the same table, which is the ten
  years 2025 to 2034 with the rates shown. The legacy policies do depend on it: for
  \<^verbatim>\<open>lav\<close>, \<^verbatim>\<open>moderat\<close> and the catch-all high policy the base rates 3 and 4
  give different tables.
\<close>

theorem generer_renteprognose_basis_rente:
  "generer_renteprognose b1 ''norges_bank'' = generer_renteprognose b2 ''norges_bank''
   \<and> generer_renteprognose b1 ''optimistisk'' = generer_renteprognose b2 ''optimistisk''
   \<and> generer_renteprognose b1 ''pessimistisk'' = generer_renteprognose b2 ''pessimistisk''
   \<and> generer_renteprognose b1 ''norges_bank''
       = Inr \<lparr>prognose_Aar = aar,
              prognose_Rente = [5.75, 5.5, 5.0, 4.6, 4.5, 4.5, 4.5, 4.5, 4.5, 4.5]\<rparr>
   \<and> generer_renteprognose b1 ''optimistisk''
       = Inr \<lparr>prognose_Aar = aar,
              prognose_Rente = [5.25, 5.0, 4.5, 4.1, 4.0, 4.0, 4.0, 4.0, 4.0, 4.0]\<rparr>
   \<and> generer_renteprognose b1 ''pessimistisk''
       = Inr \<lparr>prognose_Aar = aar,
              prognose_Rente = [6.75, 6.5, 6.0, 5.6, 5.5, 5.5, 5.5, 5.5, 5.5, 5.5]\<rparr>
   \<and> generer_renteprognose 3 ''lav'' \<noteq> generer_renteprognose 4 ''lav''
   \<and> generer_renteprognose 3 ''moderat'' \<noteq> generer_renteprognose 4 ''moderat''
   \<and> generer_renteprognose 3 ''hoy'' \<noteq> generer_renteprognose 4 ''hoy''"
  by (simp add: generer_renteprognose_def bind_err_def range10_def oppslag_def
      styringsrente_prognose_def aar_def moderat_steg_def hoy_steg_def Let_def)

section \<open>Properties of the fixed payment\<close>

lemma terminbelop_zero_rate:
  "nedbetalingstid_aar \<noteq> 0 \<Longrightarrow>
   beregn_terminbelop laan 0 nedbetalingstid_aar
   = Inr (laan / of_int (nedbetalingstid_aar * 12))"
  by (simp add: beregn_terminbelop_def py_div_def)

lemma rentefaktor_ne_1:
  fixes m :: real
  assumes "m \<noteq> 0" "m \<noteq> - 2" "0 < n"
  shows "(1 + m) ^ n \<noteq> 1"
proof
  assume "(1 + m) ^ n = 1"
  then have "norm (1 + m) = 1 \<or> n = 0" by (rule power_eq_1_iff)
  with assms(3) have "\<bar>1 + m\<bar> = 1" by simp
  with assms(1,2) show False by linarith
qed

lemma terminbelop_annuity:
  assumes "rente \<noteq> 0" "rente \<noteq> - 2400" "0 < nedbetalingstid_aar"
  shows "beregn_terminbelop laan rente nedbetalingstid_aar =
         Inr (laan * (rente / 100 / 12
                      * (1 + rente / 100 / 12) ^ nat (nedbetalingstid_aar * 12))
              / ((1 + rente / 100 / 12) ^ nat (nedbetalingstid_aar * 12) - 1))"
proof -
  let ?m = "rente / 100 / 12"
  let ?n = "nedbetalingstid_aar * 12"
  have n: "0 < ?n" using assms(3) by simp
  have m: "?m \<noteq> 0" "?m \<noteq> - 2" using assms(1,2) by auto
  have pw: "py_pow (1 + ?m) ?n = Inr ((1 + ?m) ^ nat ?n)"
    using n by (simp add: py_pow_def power_int_nonneg_exp)
  have "(1 + ?m) ^ nat ?n \<noteq> 1"
    using m n by (intro rentefaktor_ne_1) auto
  then show ?thesis
    using assms(1) pw by (simp add: beregn_terminbelop_def bind_err_def py_div_def Let_def)
qed

lemma terminbelop_zero_term:
  "beregn_terminbelop laan rente 0 = Inl ZeroDivisionError"
  by (simp add: beregn_terminbelop_def bind_err_def py_div_def py_pow_def Let_def)

lemma powi_negative_less_1:
  fixes x :: real
  assumes "1 < x" "n < 0"
  shows "x powi n < 1"
  using assms power_int_strict_increasing [of n 0 x] by simp

lemma terminbelop_negative_term:
  assumes "nedbetalingstid_aar < 0" "0 \<le> rente"
  shows "\<exists>t. beregn_terminbelop laan rente nedbetalingstid_aar = Inr t"
proof (cases "rente = 0")
  case True
  with assms show ?thesis by (simp add: beregn_terminbelop_def py_div_def)
next
  case False
  let ?m = "rente / 100 / 12"
  let ?n = "nedbetalingstid_aar * 12"
  have m: "0 < ?m" using False assms(2) by simp
  have "(1 + ?m) powi ?n < 1"
    using m assms(1) by (intro powi_negative_less_1) auto
  then show ?thesis
    using False m by (simp add: beregn_terminbelop_def bind_err_def py_div_def py_pow_def Let_def)
qed

text \<open>
  Claim C7, as stated, fails: a negative term is not rejected. With rate 0 and a term
  of \<open>-1\<close> year the division \<^verbatim>\<open>laan / (nedbetalingstid_aar * 12)\<close> simply
  returns the finite number \<open>-100\<close>.
\<close>

theorem beregn_terminbelop_negative_term_counterexample:
  "beregn_terminbelop 1200 0 (- 1) = Inr (- 100)"
  by (simp add: beregn_terminbelop_def py_div_def)

text \<open>
  Claim C7, amended. The function checks none of its arguments. A term of 0 years fails
  for every principal and rate, with Python's \<^verbatim>\<open>ZeroDivisionError\<close>. A negative
  term with a rate \<open>\<ge> 0\<close> does not fail: the call returns a number, which for rate 0
  is \<open>laan / (nedbetalingstid_aar * 12)\<close>.
\<close>

theorem beregn_terminbelop_nonpositive_term:
  "beregn_terminbelop laan rente 0 = Inl ZeroDivisionError
   \<and> (nedbetalingstid_aar < 0 \<and> 0 \<le> rente \<longrightarrow>
        (\<exists>t. beregn_terminbelop laan rente nedbetalingstid_aar = Inr t))
   \<and> (nedbetalingstid_aar < 0 \<longrightarrow>
        beregn_terminbelop laan 0 nedbetalingstid_aar
        = Inr (laan / of_int (nedbetalingstid_aar * 12)))"
  using terminbelop_zero_term [of laan rente]
    terminbelop_negative_term [of nedbetalingstid_aar rente laan]
    terminbelop_zero_rate [of nedbetalingstid_aar laan]
  by auto

theorem beregn_terminbelop_nonpositive_term_witness:
  "beregn_terminbelop 3200000 4.99 0 = Inl ZeroDivisionError
   \<and> (- 25 :: int) < 0 \<and> (0 :: real) \<le> 4.99
   \<and> (\<exists>t. beregn_terminbelop 3200000 4.99 (- 25) = Inr t)
   \<and> beregn_terminbelop 3200000 0 (- 25) = Inr (3200000 / of_int (- 25 * 12))"
  using beregn_terminbelop_nonpositive_term [of 3200000 "4.99" "- 25"]
  by simp

section \<open>Properties of the amortization schedule\<close>

text \<open>
  Every row of the loop, seen from the balance that precedes it: the starting balance
  for the first row, the recorded balance of the row before for every later one. The
  recorded balance of a row that is followed by another is positive, so the clamp
  \<^verbatim>\<open>max(0, gjenstaaende)\<close> has not changed it.
\<close>

lemma plan_loekke_rows:
  "t < length (plan_loekke k m T mnd g) \<Longrightarrow>
   (let plan = plan_loekke k m T mnd g;
        forrige = (if t = 0 then g else Gjenstaaende (plan ! (t - 1)))
    in 0 < forrige
       \<and> Renter (plan ! t) = forrige * m
       \<and> Avdrag (plan ! t) = T - forrige * m
       \<and> Gjenstaaende (plan ! t) = max 0 (forrige - Avdrag (plan ! t))
       \<and> Terminbelop (plan ! t) = T)"
proof (induction k arbitrary: t mnd g)
  case 0
  then show ?case by simp
next
  case (Suc k)
  show ?case
  proof (cases "g \<le> 0")
    case True
    with Suc.prems show ?thesis by simp
  next
    case False
    let ?g' = "g - (T - g * m)"
    let ?rest = "plan_loekke k m T (Suc mnd) ?g'"
    obtain row where plan: "plan_loekke (Suc k) m T mnd g = row # ?rest"
      and row: "Renter row = g * m" "Avdrag row = T - g * m"
        "Gjenstaaende row = max 0 ?g'" "Terminbelop row = T"
      using False by (simp add: Let_def)
    show ?thesis
    proof (cases t)
      case 0
      with plan row False show ?thesis by (simp add: Let_def)
    next
      case (Suc t')
      with Suc.prems plan have len: "t' < length ?rest" by simp
      from Suc.IH [OF len]
      have ih: "let forrige = (if t' = 0 then ?g' else Gjenstaaende (?rest ! (t' - 1)))
                in 0 < forrige
                   \<and> Renter (?rest ! t') = forrige * m
                   \<and> Avdrag (?rest ! t') = T - forrige * m
                   \<and> Gjenstaaende (?rest ! t') = max 0 (forrige - Avdrag (?rest ! t'))
                   \<and> Terminbelop (?rest ! t') = T"
        by (simp add: Let_def)
      have prev: "Gjenstaaende ((row # ?rest) ! (Suc t' - 1))
                  = (if t' = 0 then ?g' else Gjenstaaende (?rest ! (t' - 1)))"
      proof (cases t')
        case 0
        with ih have "0 < ?g'" by (simp add: Let_def)
        with 0 row show ?thesis by simp
      next
        case (Suc t'')
        then show ?thesis by simp
      qed
      show ?thesis
        unfolding plan Suc Let_def using ih prev by (simp add: Let_def)
    qed
  qed
qed

lemma plan_loekke_sum:
  assumes pos: "\<And>j. j < N \<Longrightarrow> 0 < B j"
    and step: "\<And>j. j < N \<Longrightarrow> B (Suc j) = B j - (T - B j * m)"
    and "j + k = N"
  shows "length (plan_loekke k m T mnd (B j)) = k
         \<and> sum_list (map Avdrag (plan_loekke k m T mnd (B j))) = B j - B N"
  using assms(3)
proof (induction k arbitrary: j mnd)
  case 0
  then show ?case by simp
next
  case (Suc k)
  then have j: "j < N" and "Suc j + k = N" by auto
  from Suc.IH [OF this(2), of "Suc mnd"] pos [OF j] step [OF j]
  show ?case by (simp add: Let_def)
qed


lemma plan_sum_zero_rate:
  fixes laan :: real
  assumes "0 < laan" "0 < N"
  shows "length (plan_loekke N 0 (laan / real N) 0 laan) = N
         \<and> sum_list (map Avdrag (plan_loekke N 0 (laan / real N) 0 laan)) = laan"
proof -
  define B where "B j = laan * (real N - real j) / real N" for j
  have pos: "0 < B j" if "j < N" for j
    using that assms by (simp add: B_def)
  have step: "B (Suc j) = B j - (laan / real N - B j * 0)" if "j < N" for j
    using assms by (simp add: B_def field_simps)
  have B0: "B 0 = laan" and BN: "B N = 0"
    using assms by (simp_all add: B_def)
  from plan_loekke_sum [of N B "laan / real N" 0 0 N 0, OF pos step]
  show ?thesis by (simp add: B0 BN)
qed

lemma plan_sum_annuity:
  fixes laan m :: real
  assumes "0 < laan" "0 < m" "0 < N"
  defines "T \<equiv> laan * (m * (1 + m) ^ N) / ((1 + m) ^ N - 1)"
  shows "length (plan_loekke N m T 0 laan) = N
         \<and> sum_list (map Avdrag (plan_loekke N m T 0 laan)) = laan"
proof -
  define q where "q = 1 + m"
  define B where "B j = laan * (q ^ N - q ^ j) / (q ^ N - 1)" for j
  have q1: "1 < q" using assms(2) by (simp add: q_def)
  have qN: "1 < q ^ N" using q1 assms(3) by (simp add: one_less_power)
  have pos: "0 < B j" if "j < N" for j
  proof -
    have "q ^ j < q ^ N" using q1 that by (rule power_strict_increasing[rotated])
    with qN assms(1) show ?thesis by (simp add: B_def)
  qed
  have T: "T = laan * (m * q ^ N) / (q ^ N - 1)"
    by (simp add: T_def q_def)
  have step: "B (Suc j) = B j - (T - B j * m)" if "j < N" for j
  proof -
    have m_eq: "m = q - 1" by (simp add: q_def)
    have "B j - (T - B j * m) = B j * q - T"
      by (simp add: q_def algebra_simps)
    also have "\<dots> = (laan * (q ^ N - q ^ j) * q - laan * (m * q ^ N)) / (q ^ N - 1)"
      by (simp add: B_def T diff_divide_distrib)
    also have "laan * (q ^ N - q ^ j) * q - laan * (m * q ^ N) = laan * (q ^ N - q ^ Suc j)"
      unfolding m_eq by (simp add: algebra_simps)
    finally show ?thesis by (simp add: B_def)
  qed
  have B0: "B 0 = laan" and BN: "B N = 0"
    using qN by (simp_all add: B_def)
  from plan_loekke_sum [of N B T m 0 N 0, OF pos step]
  show ?thesis by (simp add: B0 BN)
qed

lemma amortiseringsplan_full_term:
  assumes "0 < laan" "0 \<le> rente" "0 < nedbetalingstid_aar"
  shows "\<exists>plan. beregn_amortiseringsplan laan rente nedbetalingstid_aar (Some nedbetalingstid_aar)
                  = Inr plan
               \<and> length plan = nat (nedbetalingstid_aar * 12)
               \<and> sum_list (map Avdrag plan) = laan"
proof (cases "rente = 0")
  case True
  let ?N = "nat (nedbetalingstid_aar * 12)"
  have N: "0 < ?N" using assms(3) by simp
  have T: "beregn_terminbelop laan rente nedbetalingstid_aar = Inr (laan / real ?N)"
    using True assms(3) terminbelop_zero_rate [of nedbetalingstid_aar laan]
    by (simp add: of_nat_nat)
  show ?thesis
    using plan_sum_zero_rate [OF assms(1) N] T True
    by (simp add: beregn_amortiseringsplan_def bind_err_def)
next
  case False
  let ?N = "nat (nedbetalingstid_aar * 12)"
  let ?m = "rente / 100 / 12"
  have N: "0 < ?N" using assms(3) by simp
  have m: "0 < ?m" using False assms(2) by simp
  have "rente \<noteq> - 2400" using assms(2) by simp
  from terminbelop_annuity [OF False this assms(3), of laan]
  have T: "beregn_terminbelop laan rente nedbetalingstid_aar
           = Inr (laan * (?m * (1 + ?m) ^ ?N) / ((1 + ?m) ^ ?N - 1))" .
  show ?thesis
    using plan_sum_annuity [OF assms(1) m N] T
    by (simp add: beregn_amortiseringsplan_def bind_err_def)
qed


lemma plan_loekke_first:
  "0 < k \<Longrightarrow> 0 < g \<Longrightarrow>
   \<exists>row rest. plan_loekke k m T mnd g = row # rest
      \<and> Renter row = g * m \<and> Avdrag row = T - g * m"
  by (cases k) (simp_all add: Let_def)

text \<open>
  Claim C4. For every principal \<open>laan > 0\<close>, rate \<open>rente \<ge> 0\<close> and term
  \<open>nedbetalingstid_aar > 0\<close>, the schedule with the horizon equal to the term is
  returned (no error), has exactly \<open>12 * nedbetalingstid_aar\<close> rows, and its column
  \<^verbatim>\<open>Avdrag\<close> sums to \<open>laan\<close>. The sum is exact here, since the arithmetic is;
  the tolerance of the claim covers the rounding of floats, which is not modelled.
\<close>

theorem beregn_amortiseringsplan_principal_sum:
  assumes "0 < laan" "0 \<le> rente" "0 < nedbetalingstid_aar"
  shows "\<exists>plan. beregn_amortiseringsplan laan rente nedbetalingstid_aar
                  (Some nedbetalingstid_aar) = Inr plan
               \<and> length plan = nat (nedbetalingstid_aar * 12)
               \<and> sum_list (map Avdrag plan) = laan"
  using assms by (rule amortiseringsplan_full_term)

theorem beregn_amortiseringsplan_principal_sum_witness:
  "(0 :: real) < 3200000 \<and> (0 :: real) \<le> 4.99 \<and> (0 :: int) < 25
   \<and> (\<exists>plan. beregn_amortiseringsplan 3200000 4.99 25 (Some 25) = Inr plan
          \<and> length plan = 300
          \<and> sum_list (map Avdrag plan) = 3200000)"
  using beregn_amortiseringsplan_principal_sum [of 3200000 "4.99" 25]
  by simp

text \<open>
  Claim C5. In every schedule the function returns, every row \<open>t\<close> satisfies: its
  interest is the preceding balance times the monthly rate \<open>rente / 100 / 12\<close>; its
  recorded balance is the preceding balance minus its principal portion, floored at
  zero; and its principal and interest portions add up to the fixed payment. The
  preceding balance is \<open>laan\<close> for the first row and the recorded balance of row
  \<open>t - 1\<close> otherwise. In exact arithmetic the last equation holds in the final row
  too, which the claim allows.
\<close>

theorem beregn_amortiseringsplan_rows:
  assumes "beregn_amortiseringsplan laan rente nedbetalingstid_aar antall_aar = Inr plan"
  shows "\<exists>terminbelop.
           beregn_terminbelop laan rente nedbetalingstid_aar = Inr terminbelop
           \<and> (\<forall>t < length plan.
                 (let forrige = (if t = 0 then laan else Gjenstaaende (plan ! (t - 1)))
                  in Renter (plan ! t) = forrige * (rente / 100 / 12)
                     \<and> Gjenstaaende (plan ! t) = max 0 (forrige - Avdrag (plan ! t))
                     \<and> Avdrag (plan ! t) + Renter (plan ! t) = terminbelop
                     \<and> Terminbelop (plan ! t) = terminbelop))"
proof -
  from assms obtain terminbelop k
    where T: "beregn_terminbelop laan rente nedbetalingstid_aar = Inr terminbelop"
      and plan: "plan = plan_loekke k (rente / 100 / 12) terminbelop 0 laan"
    by (auto simp: beregn_amortiseringsplan_def bind_err_def Let_def split: sum.splits)
  have "let forrige = (if t = 0 then laan else Gjenstaaende (plan ! (t - 1)))
        in Renter (plan ! t) = forrige * (rente / 100 / 12)
           \<and> Gjenstaaende (plan ! t) = max 0 (forrige - Avdrag (plan ! t))
           \<and> Avdrag (plan ! t) + Renter (plan ! t) = terminbelop
           \<and> Terminbelop (plan ! t) = terminbelop"
    if "t < length plan" for t
    using plan_loekke_rows [of t k "rente / 100 / 12" terminbelop 0 laan] that
    unfolding plan Let_def by simp
  with T show ?thesis by blast
qed

theorem beregn_amortiseringsplan_rows_witness:
  "\<exists>plan terminbelop.
     beregn_amortiseringsplan 3200000 4.99 25 (Some 25) = Inr plan
     \<and> beregn_terminbelop 3200000 4.99 25 = Inr terminbelop
     \<and> length plan = 300
     \<and> Renter (plan ! 0) = 3200000 * (4.99 / 100 / 12)
     \<and> Renter (plan ! 299) = Gjenstaaende (plan ! 298) * (4.99 / 100 / 12)
     \<and> Gjenstaaende (plan ! 299) = max 0 (Gjenstaaende (plan ! 298) - Avdrag (plan ! 299))
     \<and> Avdrag (plan ! 299) + Renter (plan ! 299) = terminbelop"
proof -
  obtain plan where plan: "beregn_amortiseringsplan 3200000 4.99 25 (Some 25) = Inr plan"
    and len: "length plan = 300"
    using amortiseringsplan_full_term [of 3200000 "4.99" 25] by auto
  from beregn_amortiseringsplan_rows [OF plan] obtain terminbelop
    where T: "beregn_terminbelop 3200000 4.99 25 = Inr terminbelop"
      and rows: "\<forall>t < length plan.
                 (let forrige = (if t = 0 then 3200000 else Gjenstaaende (plan ! (t - 1)))
                  in Renter (plan ! t) = forrige * (4.99 / 100 / 12)
                     \<and> Gjenstaaende (plan ! t) = max 0 (forrige - Avdrag (plan ! t))
                     \<and> Avdrag (plan ! t) + Renter (plan ! t) = terminbelop
                     \<and> Terminbelop (plan ! t) = terminbelop)"
    by blast
  from rows [rule_format, of 0] len
  have r0: "Renter (plan ! 0) = 3200000 * (4.99 / 100 / 12)"
    by (simp add: Let_def)
  from rows [rule_format, of 299] len have r299:
    "Renter (plan ! 299) = Gjenstaaende (plan ! 298) * (4.99 / 100 / 12)
     \<and> Gjenstaaende (plan ! 299) = max 0 (Gjenstaaende (plan ! 298) - Avdrag (plan ! 299))
     \<and> Avdrag (plan ! 299) + Renter (plan ! 299) = terminbelop"
    by (simp add: Let_def)
  from plan T len r0 r299 show ?thesis by blast
qed

section \<open>The payment formula and the reference loan\<close>

text \<open>
  The factor \<open>(1 + 4.99 / 100 / 12) ^ 300\<close> of the reference loan is enclosed by
  decimal bounds, one small power at a time.
\<close>

lemma power_bounds_step:
  fixes y :: real
  assumes "0 \<le> l" "l \<le> y" "y \<le> u" "l' \<le> l ^ k" "u ^ k \<le> u'"
  shows "l' \<le> y ^ k \<and> y ^ k \<le> u'"
proof -
  have "l ^ k \<le> y ^ k" using assms(1,2) by (rule power_mono[rotated])
  moreover have "y ^ k \<le> u ^ k" using assms(1,2,3) by (intro power_mono) auto
  ultimately show ?thesis using assms(4,5) by linarith
qed

lemma rentefaktor_300:
  "3.4726340674 \<le> (120499 / 120000 :: real) ^ 300 \<and> (120499 / 120000 :: real) ^ 300 \<le> 3.472634091"
proof -
  define x :: real where "x = 120499 / 120000"
  have b5: "1.0209653045 \<le> x ^ 5 \<and> x ^ 5 \<le> 1.0209653046"
    by (simp add: x_def power_divide)
  have b25: "1.1093150842 \<le> (x ^ 5) ^ 5 \<and> (x ^ 5) ^ 5 \<le> 1.1093150848"
    by (rule power_bounds_step [of "1.0209653045" _ "1.0209653046"])
      (use b5 in \<open>simp_all add: power_divide\<close>)
  have e25: "(x ^ 5) ^ 5 = x ^ 25"
    by (simp add: power_mult [symmetric])
  have b75: "1.3651009075 \<le> (x ^ 25) ^ 3 \<and> (x ^ 25) ^ 3 \<le> 1.3651009098"
    by (rule power_bounds_step [of "1.1093150842" _ "1.1093150848"])
      (use b25 e25 in \<open>simp_all add: power_divide\<close>)
  have e75: "(x ^ 25) ^ 3 = x ^ 75"
    by (simp add: power_mult [symmetric])
  have b300: "3.4726340674 \<le> (x ^ 75) ^ 4 \<and> (x ^ 75) ^ 4 \<le> 3.472634091"
    by (rule power_bounds_step [of "1.3651009075" _ "1.3651009098"])
      (use b75 e75 in \<open>simp_all add: power_divide\<close>)
  have e300: "(x ^ 75) ^ 4 = x ^ 300"
    by (simp add: power_mult [symmetric])
  from b300 e300 show ?thesis
    unfolding x_def by simp
qed

lemma scenario_3200000:
  "\<exists>t row rest.
     beregn_terminbelop 3200000 4.99 25 = Inr t \<and> \<bar>t - 18688\<bar> < 1
     \<and> beregn_amortiseringsplan 3200000 4.99 25 None = Inr (row # rest)
     \<and> \<bar>Renter row - 13307\<bar> < 1 \<and> \<bar>Avdrag row - 5381\<bar> < 1"
proof -
  define q :: real where "q = (120499 / 120000) ^ 300"
  define t :: real where "t = 3200000 * (499 / 120000 * q) / (q - 1)"
  have q: "3.4726340674 \<le> q" "q \<le> 3.472634091"
    using rentefaktor_300 by (simp_all add: q_def)
  have m: "(1 + 4.99 / 100 / 12 :: real) = 120499 / 120000" "(4.99 / 100 / 12 :: real) = 499 / 120000"
    by simp_all
  have T: "beregn_terminbelop 3200000 4.99 25 = Inr t"
    using terminbelop_annuity [of "4.99" 25 3200000]
    unfolding m t_def q_def by simp
  have d: "0 < q - 1" using q by simp
  have "18687.5 < t"
    unfolding t_def using d q by (simp add: pos_less_divide_eq)
  moreover have "t < 18688.5"
    unfolding t_def using d q by (simp add: pos_divide_less_eq)
  ultimately have t: "18687.5 < t" "t < 18688.5" by simp_all
  obtain row rest where plan: "plan_loekke 120 (499 / 120000) t 0 3200000 = row # rest"
    and row: "Renter row = 3200000 * (499 / 120000)" "Avdrag row = t - 3200000 * (499 / 120000)"
    using plan_loekke_first [of 120 3200000 "499 / 120000" t 0] by auto
  have P: "beregn_amortiseringsplan 3200000 4.99 25 None = Inr (row # rest)"
    using T plan by (simp add: beregn_amortiseringsplan_def bind_err_def)
  have a1: "\<bar>t - 18688\<bar> < 1"
    using t by (simp add: abs_less_iff)
  have a2: "\<bar>Renter row - 13307\<bar> < 1"
    unfolding row by (simp add: abs_less_iff)
  have a3: "\<bar>Avdrag row - 5381\<bar> < 1"
    unfolding row using t by (simp add: abs_less_iff)
  from T P a1 a2 a3 show ?thesis
    by blast
qed


text \<open>
  Claim C6. With rate 0 (and a term other than 0) the payment is
  \<open>laan / (nedbetalingstid_aar * 12)\<close>. With a rate other than 0 and a positive term
  it is the annuity formula \<open>laan * (r * (1 + r) ^ n) / ((1 + r) ^ n - 1)\<close> with
  \<open>r = rente / 100 / 12\<close> and \<open>n = nedbetalingstid_aar * 12\<close>; the one rate
  excluded is \<open>-2400\<close>, where \<open>1 + r = -1\<close> makes the denominator 0 and Python
  raises. For the loan of 3,200,000 at 4.99 percent over 25 years the payment is within
  1 of 18,688, and the first row of the schedule has interest within 1 of 13,307 and
  principal within 1 of 5,381.
\<close>

theorem beregn_terminbelop_formula:
  "(nedbetalingstid_aar \<noteq> 0 \<longrightarrow>
      beregn_terminbelop laan 0 nedbetalingstid_aar
      = Inr (laan / of_int (nedbetalingstid_aar * 12)))
   \<and> (rente \<noteq> 0 \<and> rente \<noteq> - 2400 \<and> 0 < nedbetalingstid_aar \<longrightarrow>
      beregn_terminbelop laan rente nedbetalingstid_aar
      = Inr (laan * (rente / 100 / 12
                     * (1 + rente / 100 / 12) ^ nat (nedbetalingstid_aar * 12))
             / ((1 + rente / 100 / 12) ^ nat (nedbetalingstid_aar * 12) - 1)))
   \<and> (\<exists>t row rest.
         beregn_terminbelop 3200000 4.99 25 = Inr t \<and> \<bar>t - 18688\<bar> < 1
         \<and> beregn_amortiseringsplan 3200000 4.99 25 None = Inr (row # rest)
         \<and> \<bar>Renter row - 13307\<bar> < 1 \<and> \<bar>Avdrag row - 5381\<bar> < 1)"
  using terminbelop_zero_rate [of nedbetalingstid_aar laan]
    terminbelop_annuity [of rente nedbetalingstid_aar laan]
    scenario_3200000
  by blast

theorem beregn_terminbelop_formula_witness:
  "(1 :: int) \<noteq> 0 \<and> beregn_terminbelop 4095 0 1 = Inr (4095 / 12)
   \<and> (1200 :: real) \<noteq> 0 \<and> (1200 :: real) \<noteq> - 2400 \<and> (0 :: int) < 1
   \<and> beregn_terminbelop 4095 1200 1 = Inr 4096"
  using beregn_terminbelop_formula [of 1 4095 1200]
  by simp

section \<open>Properties of the sale settlement\<close>

lemma split_sum:
  fixes n :: real
  assumes "t \<noteq> 0" "a + b = t"
  shows "n * (a / t) + n * (b / t) = n"
proof -
  have "n * (a / t) + n * (b / t) = n * ((a + b) / t)"
    by (simp only: add_divide_distrib distrib_left)
  then show ?thesis using assms by simp
qed

lemma etter_investering_sum:
  "fst (etter_investering s netto) + snd (etter_investering s netto) = netto"
proof (cases "total_investert s > 0")
  case True
  then have "netto * (total_investert_a s / total_investert s)
             + netto * (total_investert_b s / total_investert s) = netto"
    by (intro split_sum) (simp_all add: total_investert_def)
  with True show ?thesis by (simp add: etter_investering_def)
next
  case False
  then show ?thesis by (simp add: etter_investering_def)
qed

lemma ek_andel_sum:
  assumes "egenkapital s = egenkapital_a s + egenkapital_b s"
  shows "ek_andel_a s + ek_andel_b s = 1"
proof (cases "egenkapital s > 0")
  case True
  with assms show ?thesis
    by (simp add: ek_andel_a_def ek_andel_b_def add_divide_distrib [symmetric])
next
  case False
  then show ?thesis by (simp add: ek_andel_a_def ek_andel_b_def)
qed

lemma gevinst_sum:
  fixes g :: real
  assumes "p + q = 1"
  shows "(a + g * p) + (b + g * q) = a + b + g"
proof -
  have "g * p + g * q = g" using assms by (simp add: distrib_left [symmetric])
  then show ?thesis by simp
qed

text \<open>
  Claim C1. Under each of the four settlement models the two payouts sum to the net
  proceeds \<open>netto_salgssum = salgspris - salgskostnader - gjenstaaende_laan\<close>, for
  every price, appreciation, selling-cost percentage, outstanding balance, equity and
  repaid principal of the two parties, also when the net proceeds are negative. The
  total equity is the sum of the two parties' equity, as the script derives it. The
  equation is one of exact arithmetic.
\<close>

theorem utbetaling_sum:
  assumes "egenkapital s = egenkapital_a s + egenkapital_b s"
  shows "fst (utbetaling modell s) + snd (utbetaling modell s) = netto_salgssum s"
proof -
  let ?n = "netto_salgssum s"
  have inv: "fst (etter_investering s ?n) + snd (etter_investering s ?n) = ?n"
    by (rule etter_investering_sum)
  have m1: "?n * (if total_investert s > 0 then total_investert_a s / total_investert s else 0.5)
            + ?n * (if total_investert s > 0 then total_investert_b s / total_investert s else 0.5)
            = ?n"
    using inv by (simp add: etter_investering_def split: if_splits)
  have ek: "(total_investert_a s + (?n - total_investert s) * ek_andel_a s)
            + (total_investert_b s + (?n - total_investert s) * ek_andel_b s) = ?n"
    using gevinst_sum [OF ek_andel_sum [OF assms], of "total_investert_a s" "?n - total_investert s" "total_investert_b s"]
    by (simp add: total_investert_def)
  have halv: "(total_investert_a s + (?n - total_investert s) * 0.5)
            + (total_investert_b s + (?n - total_investert s) * 0.5) = ?n"
    by (simp add: total_investert_def)
  show ?thesis
  proof (cases modell)
    case Modell1
    with m1 show ?thesis by (simp add: utbetaling_def Let_def)
  next
    case Modell2
    with ek inv show ?thesis by (simp add: utbetaling_def Let_def)
  next
    case Modell3
    with halv inv show ?thesis by (simp add: utbetaling_def Let_def)
  next
    case Modell4
    with ek inv m1 show ?thesis by (simp add: utbetaling_def Let_def)
  qed
qed


theorem utbetaling_sum_witness:
  "egenkapital \<lparr>boligpris = 4500000, verdiendring_prosent = - 30,
       salgskostnader_prosent = 2.5, gjenstaaende_laan = 3200000, egenkapital = 1300000,
       egenkapital_a = 520000, egenkapital_b = 780000,
       nedbetalt_a = 100000, nedbetalt_b = 200000\<rparr>
   = egenkapital_a \<lparr>boligpris = 4500000, verdiendring_prosent = - 30,
       salgskostnader_prosent = 2.5, gjenstaaende_laan = 3200000, egenkapital = 1300000,
       egenkapital_a = 520000, egenkapital_b = 780000,
       nedbetalt_a = 100000, nedbetalt_b = 200000\<rparr>
     + egenkapital_b \<lparr>boligpris = 4500000, verdiendring_prosent = - 30,
       salgskostnader_prosent = 2.5, gjenstaaende_laan = 3200000, egenkapital = 1300000,
       egenkapital_a = 520000, egenkapital_b = 780000,
       nedbetalt_a = 100000, nedbetalt_b = 200000\<rparr>
   \<and> netto_salgssum \<lparr>boligpris = 4500000, verdiendring_prosent = - 30,
       salgskostnader_prosent = 2.5, gjenstaaende_laan = 3200000, egenkapital = 1300000,
       egenkapital_a = 520000, egenkapital_b = 780000,
       nedbetalt_a = 100000, nedbetalt_b = 200000\<rparr> = - 128750
   \<and> fst (utbetaling Modell2 \<lparr>boligpris = 4500000, verdiendring_prosent = - 30,
       salgskostnader_prosent = 2.5, gjenstaaende_laan = 3200000, egenkapital = 1300000,
       egenkapital_a = 520000, egenkapital_b = 780000,
       nedbetalt_a = 100000, nedbetalt_b = 200000\<rparr>)
     + snd (utbetaling Modell2 \<lparr>boligpris = 4500000, verdiendring_prosent = - 30,
       salgskostnader_prosent = 2.5, gjenstaaende_laan = 3200000, egenkapital = 1300000,
       egenkapital_a = 520000, egenkapital_b = 780000,
       nedbetalt_a = 100000, nedbetalt_b = 200000\<rparr>) = - 128750"
  using utbetaling_sum [of "\<lparr>boligpris = 4500000, verdiendring_prosent = - 30,
       salgskostnader_prosent = 2.5, gjenstaaende_laan = 3200000, egenkapital = 1300000,
       egenkapital_a = 520000, egenkapital_b = 780000,
       nedbetalt_a = 100000, nedbetalt_b = 200000\<rparr>" Modell2]
  by (simp add: netto_salgssum_def salgspris_def salgskostnader_def)

text \<open>
  What the script establishes before the settlement: the equity shares add up to the
  equity, and the outstanding balance is the price minus the equity minus the principal
  credited to the two parties.
\<close>

lemma fordel_egenkapital_sum:
  assumes "fordel_egenkapital x = Inr (ea, eb)"
  shows "ea + eb = inn_egenkapital x"
  using assms
  by (auto simp: fordel_egenkapital_def bind_err_def py_div_def Let_def
      split: if_splits option.splits)





text \<open>
  With a rate that is not negative, a positive term, a positive loan and an equity of at
  least 15 percent the script reaches the settlement.
  Without a positive loan it does not: the ten-year schedule is empty.
\<close>

lemma terminbelop_returns:
  assumes "0 \<le> rente" "0 < nedbetalingstid_aar"
  shows "\<exists>t. beregn_terminbelop laan rente nedbetalingstid_aar = Inr t"
proof (cases "rente = 0")
  case True
  with assms terminbelop_zero_rate [of nedbetalingstid_aar laan] show ?thesis by simp
next
  case False
  with assms terminbelop_annuity [of rente nedbetalingstid_aar laan] show ?thesis by simp
qed

lemma beregn_fordeling_returns:
  "\<exists>r. beregn_fordeling tk ia ib (inn_fordeling_type x) (valgt_custom_split x) = Inr r"
  by (simp add: beregn_fordeling_def valgt_custom_split_def Let_def del: split_paired_Ex)

lemma kostnad_returns:
  assumes "0 \<le> inn_rente x" "0 < inn_nedbetalingstid x"
  shows "\<exists>r. kostnad x = Inr r"
proof -
  from terminbelop_returns [OF assms, of "laanebelop x"] obtain t
    where "beregn_terminbelop (laanebelop x) (inn_rente x) (inn_nedbetalingstid x) = Inr t"
    by blast
  with beregn_fordeling_returns [of "t + inn_felleskostnader x" "inn_brutto_aar_a x"
      "inn_brutto_aar_b x" x]
  show ?thesis by (simp add: kostnad_def bind_err_def Let_def del: split_paired_Ex)
qed


lemma fordel_egenkapital_returns:
  assumes "inn_boligpris x \<noteq> 0" "15 \<le> inn_egenkapital x / inn_boligpris x * 100"
  shows "\<exists>r. fordel_egenkapital x = Inr r"
proof -
  let ?q = "inn_egenkapital x / inn_boligpris x"
  have d: "py_div (inn_egenkapital x) (inn_boligpris x) = Inr ?q"
    using assms(1) by (simp add: py_div_def)
  have n: "(?q * 100 < 15) = False"
    using assms(2) by simp
  show ?thesis
    unfolding fordel_egenkapital_def d bind_err_def
    by (cases "inn_egenkapital_a x")
      (simp_all only: sum.case Let_def n if_False option.case, blast+)
qed



lemma plan_loekke_no_loan:
  "g \<le> 0 \<Longrightarrow> plan_loekke k m T mnd g = []"
  by (cases k) simp_all

lemma salgstilstand_no_loan:
  assumes "laanebelop x \<le> 0"
  shows "salgstilstand x \<noteq> Inr s"
proof -
  have "detaljplan x \<noteq> Inr plan" for plan
    using assms
    by (simp add: detaljplan_def beregn_amortiseringsplan_def bind_err_def
        plan_loekke_no_loan split: sum.splits)
  then show ?thesis
    by (auto simp: salgstilstand_def bind_err_def Let_def split: sum.splits prod.splits)
qed




section \<open>Properties of the ownership percentages\<close>

text \<open>
  The repaid fraction of the loan lies between 0 and 1 and does not decrease with the
  years; the percentages of one year are the initial ones plus that fraction of each
  party's share of the loan.
\<close>

lemma prosent_bounds:
  fixes aarlig laan :: real
  assumes "0 \<le> aarlig"
  defines "p \<equiv> \<lambda>i::nat. (if laan > 0 then min (aarlig * real i) laan / laan else 1)"
  shows "0 \<le> p i" and "p i \<le> 1" and "i \<le> j \<Longrightarrow> p i \<le> p j"
proof -
  show "0 \<le> p i" using assms(1) by (simp add: p_def)
  show "p i \<le> 1" by (simp add: p_def)
  assume ij: "i \<le> j"
  then have "aarlig * real i \<le> aarlig * real j"
    using assms(1) by (simp add: mult_left_mono)
  then have "min (aarlig * real i) laan \<le> min (aarlig * real j) laan"
    by (simp add: min_le_iff_disj)
  then show "p i \<le> p j"
    by (simp add: p_def divide_right_mono)
qed

lemma eierandel_aar_eq:
  "0 < i \<Longrightarrow> eierandel_aar ia ib la lb aarlig laan i =
     (ia + la * (if laan > 0 then min (aarlig * real i) laan / laan else 1),
      ib + lb * (if laan > 0 then min (aarlig * real i) laan / laan else 1))"
  by (simp add: eierandel_aar_def Let_def)

lemma eierandel_aar_bounds:
  assumes "0 \<le> ia" "0 \<le> ib" "0 \<le> la" "0 \<le> lb" "ia + ib + la + lb \<le> 100" "0 \<le> aarlig"
  shows "0 \<le> fst (eierandel_aar ia ib la lb aarlig laan i)"
    and "0 \<le> snd (eierandel_aar ia ib la lb aarlig laan i)"
    and "fst (eierandel_aar ia ib la lb aarlig laan i)
         + snd (eierandel_aar ia ib la lb aarlig laan i) \<le> 100"
proof -
  define P where "P = (\<lambda>k::nat. if laan > 0 then min (aarlig * real k) laan / laan else 1)"
  have p: "0 \<le> P i" "P i \<le> 1"
    using prosent_bounds(1,2) [OF assms(6), of laan i] by (simp_all add: P_def)
  have la: "0 \<le> la * P i" "la * P i \<le> la"
    using p assms(3) by (simp_all add: mult_left_le)
  have lb: "0 \<le> lb * P i" "lb * P i \<le> lb"
    using p assms(4) by (simp_all add: mult_left_le)
  have eq: "eierandel_aar ia ib la lb aarlig laan i
            = (if i = 0 then (ia, ib) else (ia + la * P i, ib + lb * P i))"
    by (simp add: eierandel_aar_def Let_def P_def)
  show "0 \<le> fst (eierandel_aar ia ib la lb aarlig laan i)"
    unfolding eq using assms(1) la by simp
  show "0 \<le> snd (eierandel_aar ia ib la lb aarlig laan i)"
    unfolding eq using assms(2) lb by simp
  show "fst (eierandel_aar ia ib la lb aarlig laan i)
         + snd (eierandel_aar ia ib la lb aarlig laan i) \<le> 100"
    unfolding eq using assms(1-5) la lb by simp
qed

lemma eierandel_aar_mono:
  assumes "0 \<le> la" "0 \<le> lb" "0 \<le> aarlig" "i \<le> j"
  shows "fst (eierandel_aar ia ib la lb aarlig laan i)
         \<le> fst (eierandel_aar ia ib la lb aarlig laan j)"
    and "snd (eierandel_aar ia ib la lb aarlig laan i)
         \<le> snd (eierandel_aar ia ib la lb aarlig laan j)"
proof -
  define P where "P = (\<lambda>k::nat. if laan > 0 then min (aarlig * real k) laan / laan else 1)"
  have p0: "0 \<le> P j"
    using prosent_bounds(1) [OF assms(3), of laan j] by (simp add: P_def)
  have pm: "P i \<le> P j"
    using prosent_bounds(3) [OF assms(3) assms(4), of laan] by (simp add: P_def)
  have a: "0 \<le> la * P j" "la * P i \<le> la * P j"
    using p0 pm assms(1) by (simp_all add: mult_left_mono)
  have b: "0 \<le> lb * P j" "lb * P i \<le> lb * P j"
    using p0 pm assms(2) by (simp_all add: mult_left_mono)
  have eq: "eierandel_aar ia ib la lb aarlig laan k
            = (if k = 0 then (ia, ib) else (ia + la * P k, ib + lb * P k))" for k
    by (simp add: eierandel_aar_def Let_def P_def)
  show "fst (eierandel_aar ia ib la lb aarlig laan i)
         \<le> fst (eierandel_aar ia ib la lb aarlig laan j)"
    unfolding eq using a assms(4) by simp
  show "snd (eierandel_aar ia ib la lb aarlig laan i)
         \<le> snd (eierandel_aar ia ib la lb aarlig laan j)"
    unfolding eq using b assms(4) by simp
qed


lemma terminbelop_nonneg:
  assumes "0 \<le> laan" "0 \<le> rente" "0 < nedbetalingstid_aar"
    and "beregn_terminbelop laan rente nedbetalingstid_aar = Inr t"
  shows "0 \<le> t"
proof (cases "rente = 0")
  case True
  with assms terminbelop_zero_rate [of nedbetalingstid_aar laan]
  have "t = laan / of_int (nedbetalingstid_aar * 12)" by simp
  moreover have "(0::real) < of_int (nedbetalingstid_aar * 12)" using assms(3) by simp
  ultimately show ?thesis using assms(1) by (simp only: divide_nonneg_pos)
next
  case False
  let ?m = "rente / 100 / 12"
  let ?N = "nat (nedbetalingstid_aar * 12)"
  have m: "0 < ?m" using False assms(2) by simp
  have N: "0 < ?N" using assms(3) by simp
  have q: "1 < (1 + ?m) ^ ?N" using m N by (simp add: one_less_power)
  have "rente \<noteq> - 2400" using assms(2) by simp
  from terminbelop_annuity [OF False this assms(3), of laan] assms(4)
  have t: "t = laan * (?m * (1 + ?m) ^ ?N) / ((1 + ?m) ^ ?N - 1)" by simp
  have "0 \<le> laan * (?m * (1 + ?m) ^ ?N)"
    using assms(1) m q by (intro mult_nonneg_nonneg) simp_all
  moreover have "0 < (1 + ?m) ^ ?N - 1" using q by simp
  ultimately show ?thesis unfolding t by (intro divide_nonneg_pos)
qed

lemma beregn_fordeling_nonneg:
  assumes "0 \<le> tk" "0 \<le> ia" "0 \<le> ib" "0 \<le> c" "c \<le> 100"
    and "beregn_fordeling tk ia ib ft (if ft = ''Egendefinert'' then Some c else None) = Inr (ka, kb)"
  shows "0 \<le> ka \<and> 0 \<le> kb"
proof -
  consider (lik) "ft \<noteq> ''Proporsjonal etter inntekt''" "ft \<noteq> ''Egendefinert''"
    | (null) "ft = ''Proporsjonal etter inntekt''" "ia + ib = 0"
    | (inntekt) "ft = ''Proporsjonal etter inntekt''" "ia + ib \<noteq> 0"
    | (egen) "ft = ''Egendefinert''"
    by blast
  then show ?thesis
  proof cases
    case lik
    with assms(6) have "ka = tk / 2" "kb = tk / 2"
      by (auto simp: beregn_fordeling_def split: if_splits)
    with assms(1) show ?thesis by simp
  next
    case null
    with assms(6) show ?thesis by (simp add: beregn_fordeling_def)
  next
    case inntekt
    let ?a = "ia / (ia + ib)"
    from inntekt assms(6) have k: "ka = tk * ?a" "kb = tk * (1 - ?a)"
      by (simp_all add: beregn_fordeling_def Let_def)
    have "0 < ia + ib" using inntekt(2) assms(2,3) by linarith
    then have "0 \<le> ?a" "?a \<le> 1" using assms(2,3) by simp_all
    then have "0 \<le> tk * ?a" "0 \<le> tk * (1 - ?a)"
      using assms(1) by (simp_all only: mult_nonneg_nonneg diff_ge_0_iff_ge)
    with k show ?thesis by simp
  next
    case egen
    let ?a = "c / 100"
    from egen assms(6) have k: "ka = tk * ?a" "kb = tk * (1 - ?a)"
      by (simp_all add: beregn_fordeling_def Let_def)
    have "0 \<le> ?a" "?a \<le> 1" using assms(4,5) by simp_all
    then have "0 \<le> tk * ?a" "0 \<le> tk * (1 - ?a)"
      using assms(1) by (simp_all only: mult_nonneg_nonneg diff_ge_0_iff_ge)
    with k show ?thesis by simp
  qed
qed

lemma kostnad_nonneg:
  assumes "gyldig_inndata x" "kostnad x = Inr (ka, kb)"
  shows "0 \<le> ka \<and> 0 \<le> kb"
proof -
  from assms(1) have g: "0 \<le> laanebelop x" "0 \<le> inn_rente x" "0 < inn_nedbetalingstid x"
    "0 \<le> inn_felleskostnader x" "0 \<le> inn_brutto_aar_a x" "0 \<le> inn_brutto_aar_b x"
    "0 \<le> inn_custom_split x" "inn_custom_split x \<le> 100"
    by (simp_all add: gyldig_inndata_def laanebelop_def)
  from assms(2) obtain t where
    t: "beregn_terminbelop (laanebelop x) (inn_rente x) (inn_nedbetalingstid x) = Inr t"
    and f: "beregn_fordeling (t + inn_felleskostnader x) (inn_brutto_aar_a x)
              (inn_brutto_aar_b x) (inn_fordeling_type x) (valgt_custom_split x) = Inr (ka, kb)"
    by (auto simp: kostnad_def bind_err_def Let_def split: sum.splits)
  from terminbelop_nonneg [OF g(1,2,3) t] g(4) have "0 \<le> t + inn_felleskostnader x" by simp
  from beregn_fordeling_nonneg [OF this g(5,6,7,8)] f show ?thesis
    by (simp add: valgt_custom_split_def)
qed

lemma avdrag_andel_a_bounds:
  assumes "0 \<le> ka" "0 \<le> kb" "0 \<le> c" "c \<le> 100"
  shows "0 \<le> avdrag_andel_a ft ka kb (if ft = ''Egendefinert'' then Some c else None)"
    and "avdrag_andel_a ft ka kb (if ft = ''Egendefinert'' then Some c else None) \<le> 1"
  using assms by (simp_all add: avdrag_andel_a_def)

lemma fordel_egenkapital_nonneg:
  assumes "gyldig_inndata x" "fordel_egenkapital x = Inr (ea, eb)"
  shows "0 \<le> ea \<and> 0 \<le> eb"
  using assms
  by (auto simp: gyldig_inndata_def fordel_egenkapital_def bind_err_def py_div_def Let_def
      split: if_splits option.splits)


lemma eierandel_over_tid_eq:
  assumes g: "gyldig_inndata x"
    and ek: "15 \<le> inn_egenkapital x / inn_boligpris x * 100"
  shows "\<exists>ia ib la lb aarlig.
           eierandel_over_tid x
           = Inr (map (eierandel_aar ia ib la lb aarlig (laanebelop x))
                    [0 ..< nat (inn_nedbetalingstid x + 1)])
           \<and> 0 \<le> ia \<and> 0 \<le> ib \<and> 0 \<le> la \<and> 0 \<le> lb \<and> ia + ib + la + lb \<le> 100
           \<and> 0 \<le> aarlig"
proof -
  from g have r: "0 \<le> inn_rente x" "0 < inn_nedbetalingstid x" "0 < inn_boligpris x"
    "0 \<le> laanebelop x" "0 \<le> inn_custom_split x" "inn_custom_split x \<le> 100"
    by (simp_all add: gyldig_inndata_def laanebelop_def)
  from kostnad_returns [OF r(1,2)] obtain ka kb where k: "kostnad x = Inr (ka, kb)"
    by (metis surj_pair)
  from r(3) have "inn_boligpris x \<noteq> 0" by simp
  from fordel_egenkapital_returns [OF this ek] obtain ea eb
    where e: "fordel_egenkapital x = Inr (ea, eb)"
    by (metis surj_pair)
  note kn = kostnad_nonneg [OF g k]
  note en = fordel_egenkapital_nonneg [OF g e]
  note es = fordel_egenkapital_sum [OF e]
  define bp where "bp = inn_boligpris x"
  define andel where "andel = avdrag_andel_a (inn_fordeling_type x) ka kb (valgt_custom_split x)"
  have andel: "0 \<le> andel" "andel \<le> 1"
    using avdrag_andel_a_bounds [of ka kb "inn_custom_split x" "inn_fordeling_type x"] kn r(5,6)
    by (simp_all add: andel_def valgt_custom_split_def)
  define ia where "ia = ea / bp * 100"
  define ib where "ib = eb / bp * 100"
  define tl where "tl = laanebelop x / bp * 100"
  define aarlig where "aarlig = laanebelop x / of_int (inn_nedbetalingstid x * 12) * 12"
  have bp: "0 < bp" using r(3) by (simp add: bp_def)
  have ia: "0 \<le> ia" and ib: "0 \<le> ib" and tl: "0 \<le> tl"
    using en r(4) bp by (simp_all add: ia_def ib_def tl_def)
  have la: "0 \<le> tl * andel" and lb: "0 \<le> tl * (1 - andel)"
    using tl andel by simp_all
  have "ia + ib + tl = (ea + eb + laanebelop x) / bp * 100"
    by (simp add: ia_def ib_def tl_def add_divide_distrib distrib_right)
  also have "ea + eb + laanebelop x = bp"
    using es by (simp add: laanebelop_def bp_def)
  finally have "ia + ib + tl = 100" using bp by simp
  moreover have "tl * andel + tl * (1 - andel) = tl"
    by (simp add: right_diff_distrib)
  ultimately have sum: "ia + ib + tl * andel + tl * (1 - andel) \<le> 100" by simp
  have aarlig: "0 \<le> aarlig"
    using r(2,4) by (simp add: aarlig_def)
  have d1: "py_div ea (inn_boligpris x) = Inr (ea / bp)"
    and d2: "py_div eb (inn_boligpris x) = Inr (eb / bp)"
    and d3: "py_div (laanebelop x) (inn_boligpris x) = Inr (laanebelop x / bp)"
    using bp by (simp_all add: py_div_def bp_def)
  have d4: "py_div (laanebelop x) (of_int (inn_nedbetalingstid x * 12))
            = Inr (laanebelop x / of_int (inn_nedbetalingstid x * 12))"
    using r(2) by (simp add: py_div_def)
  have "eierandel_over_tid x
        = Inr (map (eierandel_aar ia ib (tl * andel) (tl * (1 - andel)) aarlig (laanebelop x))
                 [0 ..< nat (inn_nedbetalingstid x + 1)])"
    by (simp only: eierandel_over_tid_def k e d1 d2 d3 d4 bind_err_def
        sum.case prod.case Let_def ia_def ib_def tl_def aarlig_def andel_def)
  with ia ib la lb sum aarlig show ?thesis by blast
qed

text \<open>
  Claim C8. For all widget values within their ranges and an equity of at least 15
  percent (below it the script has not assigned the equity shares), the ownership loop
  returns one pair of percentages for each elapsed year \<open>0, \<dots>, nedbetalingstid\<close>.
  In every year each party's percentage lies in \<open>[0, 100]\<close> and the two sum to at
  most 100; and each party's percentage in a later year is at least the one in an
  earlier year. The code has no clamp: the bounds follow from the ranges of the
  inputs.
\<close>

theorem eierandel_over_tid_bounds:
  assumes g: "gyldig_inndata x"
    and ek: "15 \<le> inn_egenkapital x / inn_boligpris x * 100"
  shows "\<exists>ys. eierandel_over_tid x = Inr ys
           \<and> length ys = nat (inn_nedbetalingstid x + 1)
           \<and> (\<forall>t < length ys.
                 0 \<le> fst (ys ! t) \<and> fst (ys ! t) \<le> 100
                 \<and> 0 \<le> snd (ys ! t) \<and> snd (ys ! t) \<le> 100
                 \<and> fst (ys ! t) + snd (ys ! t) \<le> 100)
           \<and> (\<forall>t t'. t \<le> t' \<and> t' < length ys \<longrightarrow>
                 fst (ys ! t) \<le> fst (ys ! t') \<and> snd (ys ! t) \<le> snd (ys ! t'))"
proof -
  from eierandel_over_tid_eq [OF assms] obtain ia ib la lb aarlig where
    eq: "eierandel_over_tid x
         = Inr (map (eierandel_aar ia ib la lb aarlig (laanebelop x))
                  [0 ..< nat (inn_nedbetalingstid x + 1)])"
    and b: "0 \<le> ia" "0 \<le> ib" "0 \<le> la" "0 \<le> lb" "ia + ib + la + lb \<le> 100" "0 \<le> aarlig"
    by blast
  let ?f = "eierandel_aar ia ib la lb aarlig (laanebelop x)"
  let ?ys = "map ?f [0 ..< nat (inn_nedbetalingstid x + 1)]"
  have len: "length ?ys = nat (inn_nedbetalingstid x + 1)" by simp
  have nth: "?ys ! t = ?f t" if "t < length ?ys" for t
    using that by simp
  have bounds: "0 \<le> fst (?ys ! t) \<and> fst (?ys ! t) \<le> 100
                 \<and> 0 \<le> snd (?ys ! t) \<and> snd (?ys ! t) \<le> 100
                 \<and> fst (?ys ! t) + snd (?ys ! t) \<le> 100" if "t < length ?ys" for t
  proof -
    note e = eierandel_aar_bounds [OF b, of "laanebelop x" t]
    from e show ?thesis unfolding nth [OF that] by linarith
  qed
  have mono: "fst (?ys ! t) \<le> fst (?ys ! t') \<and> snd (?ys ! t) \<le> snd (?ys ! t')"
    if "t \<le> t'" "t' < length ?ys" for t t'
  proof -
    from that have t: "t < length ?ys" by simp
    from eierandel_aar_mono [OF b(3,4,6) that(1), of ia ib "laanebelop x"]
    show ?thesis unfolding nth [OF t] nth [OF that(2)] by simp
  qed
  from eq len bounds mono show ?thesis by blast
qed


theorem eierandel_over_tid_bounds_witness:
  "gyldig_inndata standard_inndata
   \<and> (15 :: real) \<le> inn_egenkapital standard_inndata / inn_boligpris standard_inndata * 100
   \<and> (\<exists>ys. eierandel_over_tid standard_inndata = Inr ys
          \<and> length ys = 26
          \<and> 0 \<le> fst (ys ! 25) \<and> 0 \<le> snd (ys ! 25)
          \<and> fst (ys ! 25) + snd (ys ! 25) \<le> 100
          \<and> fst (ys ! 0) \<le> fst (ys ! 25) \<and> snd (ys ! 0) \<le> snd (ys ! 25))"
proof -
  have g: "gyldig_inndata standard_inndata"
    by (simp add: gyldig_inndata_def standard_inndata_def)
  have e: "(15 :: real) \<le> inn_egenkapital standard_inndata / inn_boligpris standard_inndata * 100"
    by (simp add: standard_inndata_def)
  from eierandel_over_tid_bounds [OF g e] obtain ys where
    ys: "eierandel_over_tid standard_inndata = Inr ys"
    and len: "length ys = nat (inn_nedbetalingstid standard_inndata + 1)"
    and b: "\<forall>t < length ys.
                 0 \<le> fst (ys ! t) \<and> fst (ys ! t) \<le> 100
                 \<and> 0 \<le> snd (ys ! t) \<and> snd (ys ! t) \<le> 100
                 \<and> fst (ys ! t) + snd (ys ! t) \<le> 100"
    and m: "\<forall>t t'. t \<le> t' \<and> t' < length ys \<longrightarrow>
                 fst (ys ! t) \<le> fst (ys ! t') \<and> snd (ys ! t) \<le> snd (ys ! t')"
    by blast
  from len have l: "length ys = 26" by (simp add: standard_inndata_def)
  from b [rule_format, of 25] l
  have b25: "0 \<le> fst (ys ! 25) \<and> 0 \<le> snd (ys ! 25) \<and> fst (ys ! 25) + snd (ys ! 25) \<le> 100"
    by simp
  from m [rule_format, of 0 25] l
  have m25: "fst (ys ! 0) \<le> fst (ys ! 25) \<and> snd (ys ! 0) \<le> snd (ys ! 25)"
    by simp
  from g e ys l b25 m25 show ?thesis by blast
qed

end
